theory Spec2Isabelle
  imports Main "HOL-Library.Word" "HOL-Library.Sublist"
begin

section \<open>Values, errors and the host environment\<close>

text \<open>
  The module under verification is the public entry point of the library (class
  \<open>JSDOM\<close> with \<open>transformOptions\<close> and \<open>normalizeHTML\<close>) and
  \<open>browser/Window.js\<close>. Objects are identified by references; a thrown exception is a
  value of type \<open>error\<close>, named after the JavaScript class that is thrown, with its
  message.
\<close>

type_synonym byte = "8 word"
type_synonym ref = nat

datatype error =
    Error string
  | RangeError string
  | TypeError string
  | ReferenceError string

text \<open>
  The first argument of the constructor. A value that is neither a string nor made of
  bytes (\<open>null\<close>, a boolean, a number, an object) is kept as it is; the builtin
  \<open>String\<close> of the host converts it, and the conversion is taken to return (an
  object whose own \<open>toString\<close> throws is not modelled). A typed view stands for
  every \<open>ArrayBuffer\<close> view, a Node.js \<open>Buffer\<close> included.
\<close>

datatype js_value = JSNull | JSBoolean bool | JSNumber int | JSObject ref

datatype input =
    Undefined
  | StringIn string
  | ValueIn js_value
  | ArrayBufferIn "byte list"
  | ViewIn (buffer: "byte list") (byteOffset: nat) (byteLength: nat)

text \<open>
  The record of a parsed MIME type, with the two classifying predicates of the
  \<open>whatwg-mimetype\<close> package: \<open>text/html\<close> is HTML; \<open>text/xml\<close>,
  \<open>application/xml\<close> and every subtype ending in \<open>+xml\<close> are XML.
\<close>

record mime_type =
  mtype :: string
  subtype :: string
  parameters :: "(string \<times> string) list"

definition essence :: "mime_type \<Rightarrow> string" where
  "essence m = mtype m @ ''/'' @ subtype m"

definition isHTML :: "mime_type \<Rightarrow> bool" where
  "isHTML m = (subtype m = ''html'' \<and> mtype m = ''text'')"

definition isXML :: "mime_type \<Rightarrow> bool" where
  "isXML m = ((subtype m = ''xml'' \<and> (mtype m = ''text'' \<or> mtype m = ''application''))
              \<or> suffix ''+xml'' (subtype m))"

datatype cookie_jar = SuppliedJar ref | NewCookieJar

text \<open>
  The collaborators that the two files call and that live outside them. Each call is
  recorded in the trace of the world and may throw.
\<close>

datatype collaborator =
    installInterfaces
  | createWrapper
  | Selection_createImpl
  | CustomElementRegistry_create
  | initializeWindow
  | parseIntoDocument
  | document_close
  | createElement
  | set_innerHTML

record css_property =
  pname :: string
  pvalue :: string
  ppriority :: string

type_synonym css_declaration = "css_property list"

record element =
  sheet_rules :: "css_declaration list"
  style :: css_declaration

text \<open>
  What the environment provides: the MIME type parser, the builtin \<open>String\<close>, the
  encoding library, the URL parser, whether the identifier \<open>CookieJar\<close> is bound in
  the scope the module is evaluated in (the module itself neither imports nor declares
  it), the origin a document derives from its URL, the exception a collaborator throws if it throws, and the resolved-value table of
  the style helpers.
\<close>

record host =
  MIMEType_new :: "string \<Rightarrow> mime_type option"
  String_of :: "js_value \<Rightarrow> string"
  labelToName :: "string \<Rightarrow> string option"
  prescanMetaCharset :: "byte list \<Rightarrow> string option"
  decode :: "byte list \<Rightarrow> string \<Rightarrow> string"
  URL_href :: "string \<Rightarrow> string option"
  CookieJar_bound :: bool
  origin_of :: "string \<Rightarrow> string"
  throws :: "collaborator \<Rightarrow> error option"
  propertiesWithResolvedValueImplemented :: "string list"
  getResolvedValue :: "element \<Rightarrow> string \<Rightarrow> string"

section \<open>The input normalizer\<close>

text \<open>
  \<open>getBOMEncoding\<close> of the encoding library: the byte-order marks of UTF-16BE,
  UTF-16LE and UTF-8, tried in this order.
\<close>

definition getBOMEncoding :: "byte list \<Rightarrow> string option" where
  "getBOMEncoding b =
     (if take 2 b = [0xFE, 0xFF] then Some ''UTF-16BE''
      else if take 2 b = [0xFF, 0xFE] then Some ''UTF-16LE''
      else if take 3 b = [0xEF, 0xBB, 0xBF] then Some ''UTF-8''
      else None)"

text \<open>
  Modelled from the spec: \<open>sniffHTMLEncoding\<close> of the package
  \<open>html-encoding-sniffer\<close>, which is not part of the two files. Encoding detection
  uses, in priority order, a leading byte-order mark, the transport-supplied charset
  label, an in-document hint scanned from a prefix of the bytes, and the default.
\<close>

definition sniffHTMLEncoding ::
  "host \<Rightarrow> byte list \<Rightarrow> string \<Rightarrow> string option \<Rightarrow> string" where
  "sniffHTMLEncoding h b defaultEncoding transportLayerEncodingLabel =
     (case getBOMEncoding b of
        Some e \<Rightarrow> e
      | None \<Rightarrow>
          (case (case transportLayerEncodingLabel of
                   None \<Rightarrow> None
                 | Some l \<Rightarrow> labelToName h l) of
             Some e \<Rightarrow> e
           | None \<Rightarrow>
               (case prescanMetaCharset h b of
                  Some e \<Rightarrow> e
                | None \<Rightarrow> defaultEncoding)))"

text \<open>
  The first two tests of \<open>normalizeHTML\<close> turn a typed view and an
  \<open>ArrayBuffer\<close> into a \<open>Buffer\<close>; \<open>toBuffer\<close> is \<open>None\<close> for every
  other value, for which \<open>Buffer.isBuffer\<close> is false.
\<close>

fun toBuffer :: "input \<Rightarrow> byte list option" where
  "toBuffer (ViewIn buf off len) = Some (take len (drop off buf))"
| "toBuffer (ArrayBufferIn buf) = Some buf"
| "toBuffer _ = None"

text \<open>The builtin \<open>String\<close> on a value that is not made of bytes.\<close>

fun String :: "host \<Rightarrow> input \<Rightarrow> string" where
  "String h (StringIn s) = s"
| "String h (ValueIn v) = String_of h v"
| "String h _ = ''''"

definition normalizeHTML :: "host \<Rightarrow> input \<Rightarrow> mime_type \<Rightarrow> string \<times> string" where
  "normalizeHTML h html0 mimeType =
     (let html = (case html0 of Undefined \<Rightarrow> StringIn '''' | _ \<Rightarrow> html0);
          encoding = ''UTF-8''
      in case toBuffer html of
           Some b \<Rightarrow>
             (let encoding = sniffHTMLEncoding h b
                    (if isXML mimeType then ''UTF-8'' else ''windows-1252'')
                    (map_of (parameters mimeType) ''charset'')
              in (decode h b encoding, encoding))
         | None \<Rightarrow> (String h html, encoding))"

section \<open>The configuration resolver\<close>

record options =
  contentType :: "string option"
  url :: "string option"
  referrer :: "string option"
  includeNodeLocations :: bool
  cookieJar :: "cookie_jar option"
  beforeParse :: "(ref \<Rightarrow> error option) option"

record parse_options =
  sourceCodeLocationInfo :: bool
  scriptingEnabled :: "bool option"

record window_options =
  w_url :: string
  w_referrer :: string
  w_contentType :: string
  w_parsingMode :: string
  w_parseOptions :: parse_options
  w_runScripts :: "string option"
  w_encoding :: string
  w_pretendToBeVisual :: bool
  w_storageQuota :: nat
  w_resourceLoader :: "ref option"
  w_virtualConsole :: "ref option"
  w_cookieJar :: "cookie_jar option"

record transformed =
  windowOptions :: window_options
  t_beforeParse :: "ref \<Rightarrow> error option"

definition defaults :: "string \<Rightarrow> transformed" where
  "defaults encoding =
     \<lparr>windowOptions =
        \<lparr>w_url = ''about:blank'',
         w_referrer = '''',
         w_contentType = ''text/html'',
         w_parsingMode = ''html'',
         w_parseOptions = \<lparr>sourceCodeLocationInfo = False, scriptingEnabled = Some False\<rparr>,
         w_runScripts = None,
         w_encoding = encoding,
         w_pretendToBeVisual = False,
         w_storageQuota = 5000000,
         w_resourceLoader = None,
         w_virtualConsole = None,
         w_cookieJar = None\<rparr>,
      t_beforeParse = (\<lambda>_. None)\<rparr>"

definition contentTypeMessage :: "options \<Rightarrow> string" where
  "contentTypeMessage opts =
     ''The given content type of '' @ [CHR 0x22]
       @ (case contentType opts of None \<Rightarrow> ''undefined'' | Some c \<Rightarrow> c)
       @ [CHR 0x22] @ '' was not a HTML or XML content type''"

definition nodeLocationsMessage :: string where
  "nodeLocationsMessage = ''Cannot set includeNodeLocations to true with an XML content type''"

text \<open>\<open>(new URL(s)).href\<close>: the URL parser throws a \<open>TypeError\<close> on a string it rejects.\<close>

definition new_URL_href :: "host \<Rightarrow> string \<Rightarrow> error + string" where
  "new_URL_href h s =
     (case URL_href h s of None \<Rightarrow> Inl (TypeError ''Invalid URL'') | Some href \<Rightarrow> Inr href)"

text \<open>
  \<open>new CookieJar()\<close>: evaluating an identifier that is not bound throws a
  \<open>ReferenceError\<close>.
\<close>

definition new_CookieJar :: "host \<Rightarrow> error + cookie_jar" where
  "new_CookieJar h =
     (if CookieJar_bound h then Inr NewCookieJar
      else Inl (ReferenceError ''CookieJar is not defined''))"

text \<open>A statement that throws ends the function: the exception propagates.\<close>

definition on_return :: "error + 'a \<Rightarrow> ('a \<Rightarrow> error + 'b) \<Rightarrow> error + 'b" where
  "on_return r f = (case r of Inl e \<Rightarrow> Inl e | Inr x \<Rightarrow> f x)"

definition set_url :: "host \<Rightarrow> options \<Rightarrow> window_options \<Rightarrow> error + window_options" where
  "set_url h opts wo =
     (case url opts of
        None \<Rightarrow> Inr wo
      | Some u \<Rightarrow> on_return (new_URL_href h u) (\<lambda>href. Inr (wo\<lparr>w_url := href\<rparr>)))"

definition set_referrer :: "host \<Rightarrow> options \<Rightarrow> window_options \<Rightarrow> error + window_options" where
  "set_referrer h opts wo =
     (case referrer opts of
        None \<Rightarrow> Inr wo
      | Some r \<Rightarrow> on_return (new_URL_href h r) (\<lambda>href. Inr (wo\<lparr>w_referrer := href\<rparr>)))"

definition set_parseOptions :: "options \<Rightarrow> window_options \<Rightarrow> error + window_options" where
  "set_parseOptions opts wo =
     (if includeNodeLocations opts then
        (if w_parsingMode wo = ''xml'' then Inl (TypeError nodeLocationsMessage)
         else Inr (wo\<lparr>w_parseOptions :=
                         \<lparr>sourceCodeLocationInfo = True, scriptingEnabled = None\<rparr>\<rparr>))
      else Inr wo)"

definition set_cookieJar :: "host \<Rightarrow> options \<Rightarrow> window_options \<Rightarrow> error + window_options" where
  "set_cookieJar h opts wo =
     on_return (case cookieJar opts of None \<Rightarrow> new_CookieJar h | Some j \<Rightarrow> Inr j)
       (\<lambda>jar. Inr (wo\<lparr>w_cookieJar := Some jar\<rparr>))"

definition transformOptions ::
  "host \<Rightarrow> options \<Rightarrow> string \<Rightarrow> mime_type \<Rightarrow> error + transformed" where
  "transformOptions h opts encoding mimeType =
     (let t = defaults encoding in
      if \<not> isHTML mimeType \<and> \<not> isXML mimeType then Inl (RangeError (contentTypeMessage opts))
      else
        on_return (set_url h opts ((windowOptions t)
                     \<lparr>w_contentType := essence mimeType,
                      w_parsingMode := (if isHTML mimeType then ''html'' else ''xml'')\<rparr>))
          (\<lambda>wo. on_return (set_referrer h opts wo)
          (\<lambda>wo. on_return (set_parseOptions opts wo)
          (\<lambda>wo. on_return (set_cookieJar h opts wo)
          (\<lambda>wo. Inr \<lparr>windowOptions = wo,
                      t_beforeParse =
                        (case beforeParse opts of
                           None \<Rightarrow> t_beforeParse t
                         | Some f \<Rightarrow> f)\<rparr>)))))"

section \<open>The world: trace, references, windows, the shared fragment document\<close>

record document =
  d_ref :: ref
  d_parsingMode :: string
  d_contentType :: string
  d_encoding :: string
  d_cookieJar :: "cookie_jar option"
  d_url :: string
  d_referrer :: string
  d_parseOptions :: parse_options
  d_defaultView :: ref
  d_global :: ref
  d_origin :: string

record window =
  priv_globalObject :: ref
  priv_globalProxy :: ref
  priv_document :: document
  priv_origin :: string
  priv_parent :: ref
  priv_top :: ref
  priv_frameElement :: "ref option"
  priv_length :: nat
  priv_selection :: ref
  customElementRegistry :: ref

datatype event =
    InstallInterfaces ref
  | CreateWrapper ref ref
  | CreateSelection ref ref
  | CreateRegistry ref ref
  | InitializeWindow ref ref
  | BeforeParse ref
  | ParseIntoDocument string ref
  | Close ref
  | CreateElement ref string ref
  | SetInnerHTML ref string

record world =
  trace :: "event list"
  next_ref :: ref
  windows :: "ref \<Rightarrow> window option"
  sharedFragmentDocument :: "document option"

type_synonym 'a action = "world \<Rightarrow> (error + 'a) \<times> world"

definition ret :: "'a \<Rightarrow> 'a action" where
  "ret x w = (Inr x, w)"

definition throw :: "error \<Rightarrow> 'a action" where
  "throw e w = (Inl e, w)"

definition andThen :: "'a action \<Rightarrow> ('a \<Rightarrow> 'b action) \<Rightarrow> 'b action" where
  "andThen m f w = (case m w of (Inl e, w') \<Rightarrow> (Inl e, w') | (Inr x, w') \<Rightarrow> f x w')"

definition alloc :: "ref action" where
  "alloc w = (Inr (next_ref w), w\<lparr>next_ref := Suc (next_ref w)\<rparr>)"

text \<open>A call of a collaborator is recorded; the collaborator returns or throws.\<close>

definition call :: "host \<Rightarrow> collaborator \<Rightarrow> event \<Rightarrow> unit action" where
  "call h c ev w =
     ((case throws h c of None \<Rightarrow> Inr () | Some e \<Rightarrow> Inl e), w\<lparr>trace := trace w @ [ev]\<rparr>)"

text \<open>A call of the hook \<open>beforeParse\<close> with its argument.\<close>

definition invoke :: "(ref \<Rightarrow> error option) \<Rightarrow> ref \<Rightarrow> unit action" where
  "invoke f arg w =
     ((case f arg of None \<Rightarrow> Inr () | Some e \<Rightarrow> Inl e), w\<lparr>trace := trace w @ [BeforeParse arg]\<rparr>)"

text \<open>Reading a property of the window object behind a reference.\<close>

definition deref :: "ref \<Rightarrow> window action" where
  "deref r w =
     (case windows w r of
        None \<Rightarrow> (Inl (TypeError ''Cannot read properties of undefined''), w)
      | Some win \<Rightarrow> (Inr win, w))"

section \<open>The window\<close>

text \<open>
  Modelled from the spec: the document that \<open>documents.createWrapper\<close> returns, which
  is not part of the two files. The document holds the parse options and the content-type
  and encoding metadata it is created with, and a back-reference to the window as its
  default view; its origin is derived from its URL.
\<close>

definition new_document :: "host \<Rightarrow> ref \<Rightarrow> ref \<Rightarrow> ref \<Rightarrow> window_options \<Rightarrow> document" where
  "new_document h d defaultView global opts =
     \<lparr>d_ref = d,
      d_parsingMode = w_parsingMode opts,
      d_contentType = w_contentType opts,
      d_encoding = w_encoding opts,
      d_cookieJar = w_cookieJar opts,
      d_url = w_url opts,
      d_referrer = w_referrer opts,
      d_parseOptions = w_parseOptions opts,
      d_defaultView = defaultView,
      d_global = global,
      d_origin = origin_of h (w_url opts)\<rparr>"

text \<open>
  The constructor of \<open>Window\<close>, from \<open>setupWindow\<close> to the accessors. The
  \<open>Option\<close> constructor, the selection method, the not-implemented methods and the
  public data properties that it also installs assign none of the private fields; the
  method \<open>getComputedStyle\<close> is the last section of the model.
\<close>

definition Window :: "host \<Rightarrow> ref \<Rightarrow> window_options \<Rightarrow> window action" where
  "Window h this opts =
     andThen (call h installInterfaces (InstallInterfaces this)) (\<lambda>_.
     let globalObject = this;
         globalProxy = this
     in
     andThen alloc (\<lambda>d.
     andThen (call h createWrapper (CreateWrapper this d)) (\<lambda>_.
     let doc = new_document h d globalProxy this opts;
         documentOrigin = d_origin doc;
         top = globalProxy;
         parent = top
     in
     andThen alloc (\<lambda>s.
     andThen (call h Selection_createImpl (CreateSelection this s)) (\<lambda>_.
     andThen alloc (\<lambda>c.
     andThen (call h CustomElementRegistry_create (CreateRegistry this c)) (\<lambda>_.
     andThen (call h initializeWindow (InitializeWindow this globalProxy)) (\<lambda>_.
     ret \<lparr>priv_globalObject = globalObject,
          priv_globalProxy = globalProxy,
          priv_document = doc,
          priv_origin = documentOrigin,
          priv_parent = parent,
          priv_top = top,
          priv_frameElement = None,
          priv_length = 0,
          priv_selection = s,
          customElementRegistry = c\<rparr>))))))))"

text \<open>The accessors that the constructor installs on the window.\<close>

definition get_length :: "window \<Rightarrow> nat" where
  "get_length window = priv_length window"

definition get_window :: "window \<Rightarrow> ref" where
  "get_window window = priv_globalProxy window"

definition get_frames :: "window \<Rightarrow> ref" where
  "get_frames window = priv_globalProxy window"

definition get_self :: "window \<Rightarrow> ref" where
  "get_self window = priv_globalProxy window"

definition get_parent :: "window \<Rightarrow> ref" where
  "get_parent window = priv_parent window"

definition get_top :: "window \<Rightarrow> ref" where
  "get_top window = priv_top window"

definition get_document :: "window \<Rightarrow> document" where
  "get_document window = priv_document window"

definition get_origin :: "window \<Rightarrow> string" where
  "get_origin window = priv_origin window"

definition get_customElements :: "window \<Rightarrow> ref" where
  "get_customElements window = customElementRegistry window"

text \<open>\<open>createWindow\<close>: \<open>new Window(options)\<close> on a fresh object.\<close>

definition createWindow :: "host \<Rightarrow> window_options \<Rightarrow> ref action" where
  "createWindow h opts =
     andThen alloc (\<lambda>this.
     andThen (Window h this opts) (\<lambda>win.
     (\<lambda>w. (Inr this, w\<lparr>windows := (windows w)(this \<mapsto> win)\<rparr>))))"

section \<open>The class \<open>JSDOM\<close>\<close>

record jsdom =
  window_sym :: ref

definition no_options :: options where
  "no_options =
     \<lparr>contentType = None, url = None, referrer = None, includeNodeLocations = False,
      cookieJar = None, beforeParse = None\<rparr>"

definition mimeMessage :: "string \<Rightarrow> string" where
  "mimeMessage s = ''Could not parse MIME type string '' @ [CHR 0x22] @ s @ [CHR 0x22]"

definition new_MIMEType :: "host \<Rightarrow> string \<Rightarrow> error + mime_type" where
  "new_MIMEType h s =
     (case MIMEType_new h s of None \<Rightarrow> Inl (Error (mimeMessage s)) | Some m \<Rightarrow> Inr m)"

definition lift :: "error + 'a \<Rightarrow> 'a action" where
  "lift r w = (r, w)"

text \<open>The content type that the constructor parses: the option, or \<open>text/html\<close>.\<close>

definition contentType_or_default :: "options \<Rightarrow> string" where
  "contentType_or_default opts =
     (case contentType opts of None \<Rightarrow> ''text/html'' | Some c \<Rightarrow> c)"

definition JSDOM_new :: "host \<Rightarrow> input \<Rightarrow> options \<Rightarrow> jsdom action" where
  "JSDOM_new h inp opts =
     andThen (lift (new_MIMEType h (contentType_or_default opts))) (\<lambda>mimeType.
     let (html, encoding) = normalizeHTML h inp mimeType in
     andThen (lift (transformOptions h opts encoding mimeType)) (\<lambda>options.
     andThen (createWindow h (windowOptions options)) (\<lambda>this_window.
     andThen (deref this_window) (\<lambda>win.
     let documentImpl = priv_document win in
     andThen (invoke (t_beforeParse options) (priv_globalProxy win)) (\<lambda>_.
     andThen (call h parseIntoDocument (ParseIntoDocument html (d_ref documentImpl))) (\<lambda>_.
     andThen (call h document_close (Close (d_ref documentImpl))) (\<lambda>_.
     ret \<lparr>window_sym = this_window\<rparr>)))))))"

text \<open>The accessor \<open>window\<close> of an instance.\<close>

definition JSDOM_window :: "jsdom \<Rightarrow> ref action" where
  "JSDOM_window j = andThen (deref (window_sym j)) (\<lambda>win. ret (priv_globalProxy win))"

type_synonym location = "nat \<times> nat"

record node =
  n_ref :: ref
  sourceCodeLocation :: "location option"

definition locationMessage :: string where
  "locationMessage =
     ''Location information was not saved for this jsdom. Use includeNodeLocations during creation.''"

definition nodeLocation :: "jsdom \<Rightarrow> node \<Rightarrow> (location option) action" where
  "nodeLocation j n =
     andThen (deref (window_sym j)) (\<lambda>win.
     if \<not> sourceCodeLocationInfo (d_parseOptions (priv_document win))
     then throw (Error locationMessage)
     else ret (sourceCodeLocation n))"

text \<open>
  The static method \<open>fragment\<close>. The content of the template element it creates is
  identified by the template, and carries the document that created it and the markup
  assigned to it.
\<close>

record document_fragment =
  f_template :: ref
  f_document :: ref
  f_markup :: string

definition get_sharedFragmentDocument :: "host \<Rightarrow> document action" where
  "get_sharedFragmentDocument h w =
     (case sharedFragmentDocument w of
        Some d \<Rightarrow> (Inr d, w)
      | None \<Rightarrow>
          andThen (JSDOM_new h Undefined no_options) (\<lambda>j.
          andThen (JSDOM_window j) (\<lambda>p.
          andThen (deref p) (\<lambda>win.
          (\<lambda>w'. (Inr (get_document win),
                  w'\<lparr>sharedFragmentDocument := Some (get_document win)\<rparr>))))) w)"

definition fragment :: "host \<Rightarrow> string option \<Rightarrow> document_fragment action" where
  "fragment h string0 =
     (let string = (case string0 of None \<Rightarrow> [] | Some s \<Rightarrow> s) in
      andThen (get_sharedFragmentDocument h) (\<lambda>d.
      andThen alloc (\<lambda>template.
      andThen (call h createElement (CreateElement (d_ref d) ''template'' template)) (\<lambda>_.
      andThen (call h set_innerHTML (SetInnerHTML template string)) (\<lambda>_.
      ret \<lparr>f_template = template, f_document = d_ref d, f_markup = string\<rparr>)))))"

section \<open>The computed style of an element\<close>

text \<open>
  Modelled from the spec: the declaration object of the package \<open>cssstyle\<close>, which
  is not part of the two files. It is an indexed list of properties, each with a value and
  a priority; setting a property overwrites the same-named property set earlier, or
  appends a new one; the value of a property that is not present is the empty string.
\<close>

fun setProperty :: "css_declaration \<Rightarrow> string \<Rightarrow> string \<Rightarrow> string \<Rightarrow> css_declaration" where
  "setProperty [] name v prio = [\<lparr>pname = name, pvalue = v, ppriority = prio\<rparr>]"
| "setProperty (x # xs) name v prio =
     (if pname x = name then \<lparr>pname = name, pvalue = v, ppriority = prio\<rparr> # xs
      else x # setProperty xs name v prio)"

definition getPropertyValue :: "css_declaration \<Rightarrow> string \<Rightarrow> string" where
  "getPropertyValue d name =
     (case find (\<lambda>x. pname x = name) d of None \<Rightarrow> [] | Some x \<Rightarrow> pvalue x)"

definition getPropertyPriority :: "css_declaration \<Rightarrow> string \<Rightarrow> string" where
  "getPropertyPriority d name =
     (case find (\<lambda>x. pname x = name) d of None \<Rightarrow> [] | Some x \<Rightarrow> ppriority x)"

text \<open>The indexed property names, which \<open>forEach\<close> visits in order.\<close>

definition properties :: "css_declaration \<Rightarrow> string list" where
  "properties d = map pname d"

definition copy_properties :: "css_declaration \<Rightarrow> css_declaration \<Rightarrow> css_declaration" where
  "copy_properties declaration from =
     foldl (\<lambda>decl property.
              setProperty decl property (getPropertyValue from property)
                (getPropertyPriority from property))
       declaration (properties from)"

definition getComputedStyle :: "host \<Rightarrow> element \<Rightarrow> css_declaration" where
  "getComputedStyle h elt =
     (let declaration = [];
          declaration = foldl copy_properties declaration (sheet_rules elt);
          declarations = propertiesWithResolvedValueImplemented h;
          declaration =
            foldl (\<lambda>decl property. setProperty decl property (getResolvedValue h elt property) [])
              declaration declarations
      in copy_properties declaration (style elt))"

section \<open>Notions used in the statements\<close>

text \<open>
  The value that the style-sheet rules give a property: the value in the last rule, in
  encounter order, that declares it.
\<close>

definition last_declared :: "css_declaration list \<Rightarrow> string \<Rightarrow> string option" where
  "last_declared rules p =
     (case filter (\<lambda>r. p \<in> set (properties r)) rules of
        [] \<Rightarrow> None
      | r # rs \<Rightarrow> Some (getPropertyValue (last (r # rs)) p))"

text \<open>Whether an option that holds a URL is absent or accepted by the URL parser.\<close>

definition parses :: "host \<Rightarrow> string option \<Rightarrow> bool" where
  "parses h u = (case u of None \<Rightarrow> True | Some s \<Rightarrow> URL_href h s \<noteq> None)"

text \<open>
  What each call of a construction does, in the order of the calls, for the first fresh
  reference \<open>r\<close>: it returns (\<open>None\<close>) or throws; the sixth is the hook. And
  the events that a construction which returns adds to the trace, for \<open>r\<close> and the
  markup that is parsed.
\<close>

definition step_outcomes :: "host \<Rightarrow> options \<Rightarrow> ref \<Rightarrow> error option list" where
  "step_outcomes h opts r =
     [throws h installInterfaces, throws h createWrapper, throws h Selection_createImpl,
      throws h CustomElementRegistry_create, throws h initializeWindow,
      (case beforeParse opts of None \<Rightarrow> None | Some f \<Rightarrow> f r),
      throws h parseIntoDocument, throws h document_close]"

definition construction_trace :: "ref \<Rightarrow> string \<Rightarrow> event list" where
  "construction_trace r html =
     [InstallInterfaces r, CreateWrapper r (r + 1), CreateSelection r (r + 2),
      CreateRegistry r (r + 3), InitializeWindow r r, BeforeParse r,
      ParseIntoDocument html (r + 1), Close (r + 1)]"

definition is_BeforeParse :: "event \<Rightarrow> bool" where
  "is_BeforeParse ev = (case ev of BeforeParse a \<Rightarrow> True | _ \<Rightarrow> False)"

definition markup :: "host \<Rightarrow> input \<Rightarrow> options \<Rightarrow> string" where
  "markup h inp opts =
     (case MIMEType_new h (contentType_or_default opts) of
        None \<Rightarrow> []
      | Some m \<Rightarrow> fst (normalizeHTML h inp m))"

text \<open>The events added to the trace between two worlds.\<close>

definition new_events :: "world \<Rightarrow> world \<Rightarrow> event list" where
  "new_events w w' = drop (length (trace w)) (trace w')"

section \<open>An example host and example inputs\<close>

text \<open>
  A host in the manner of Node.js, used to run the definitions on concrete inputs: no
  global \<open>CookieJar\<close>, collaborators that do not throw, a MIME type parser that knows
  three content types, and the decimal string conversion of integers.
\<close>

definition text_html :: mime_type where
  "text_html = \<lparr>mtype = ''text'', subtype = ''html'', parameters = []\<rparr>"

definition application_xml :: mime_type where
  "application_xml = \<lparr>mtype = ''application'', subtype = ''xml'', parameters = []\<rparr>"

definition text_plain :: mime_type where
  "text_plain = \<lparr>mtype = ''text'', subtype = ''plain'', parameters = []\<rparr>"

fun decimal :: "nat \<Rightarrow> string" where
  "decimal n =
     (if n < 10 then [''0123456789'' ! n]
      else decimal (n div 10) @ [''0123456789'' ! (n mod 10)])"

declare decimal.simps [simp del]

definition example_String_of :: "js_value \<Rightarrow> string" where
  "example_String_of v =
     (case v of
        JSNull \<Rightarrow> ''null''
      | JSBoolean b \<Rightarrow> (if b then ''true'' else ''false'')
      | JSNumber n \<Rightarrow> (if n < 0 then ''-'' @ decimal (nat (- n)) else decimal (nat n))
      | JSObject r \<Rightarrow> ''[object Object]'')"

definition node_host :: host where
  "node_host =
     \<lparr>MIMEType_new =
        (\<lambda>s. if s = ''text/html'' then Some text_html
             else if s = ''application/xml'' then Some application_xml
             else if s = ''text/plain'' then Some text_plain
             else None),
      String_of = example_String_of,
      labelToName = (\<lambda>l. if l = ''utf-8'' then Some ''UTF-8'' else None),
      prescanMetaCharset = (\<lambda>b. None),
      decode = (\<lambda>b enc. map (\<lambda>x. char_of (unat x)) b),
      URL_href = (\<lambda>s. if s = ''about:blank'' \<or> prefix ''https://'' s then Some s else None),
      CookieJar_bound = False,
      origin_of = (\<lambda>u. if u = ''about:blank'' then ''null'' else u),
      throws = (\<lambda>c. None),
      propertiesWithResolvedValueImplemented = [''visibility''],
      getResolvedValue = (\<lambda>e p. ''visible'')\<rparr>"

definition bound_host :: host where
  "bound_host = node_host\<lparr>CookieJar_bound := True\<rparr>"

definition world0 :: world where
  "world0 = \<lparr>trace = [], next_ref = 0, windows = (\<lambda>r. None), sharedFragmentDocument = None\<rparr>"

definition with_jar :: options where
  "with_jar = no_options\<lparr>cookieJar := Some (SuppliedJar 9)\<rparr>"

definition with_locations :: options where
  "with_locations = with_jar\<lparr>includeNodeLocations := True\<rparr>"

definition plain_options :: options where
  "plain_options = no_options\<lparr>contentType := Some ''text/plain''\<rparr>"

definition xml_locations :: options where
  "xml_locations =
     no_options\<lparr>contentType := Some ''application/xml'', includeNodeLocations := True\<rparr>"

definition xml_locations_bad_url :: options where
  "xml_locations_bad_url = xml_locations\<lparr>url := Some ''not a url''\<rparr>"

definition example_node :: node where
  "example_node = \<lparr>n_ref = 7, sourceCodeLocation = Some (0, 9)\<rparr>"

definition red_blue :: element where
  "red_blue =
     \<lparr>sheet_rules = [[\<lparr>pname = ''color'', pvalue = ''red'', ppriority = []\<rparr>]],
      style = [\<lparr>pname = ''color'', pvalue = ''blue'', ppriority = []\<rparr>]\<rparr>"

section \<open>Unfolding rules\<close>

text \<open>The definitions that a proof by unfolding or evaluation uses together.\<close>

lemmas action_defs = andThen_def ret_def throw_def lift_def alloc_def call_def invoke_def deref_def

lemmas construction_defs = JSDOM_new_def createWindow_def Window_def new_MIMEType_def
  new_document_def Let_def

lemmas transformOptions_defs = transformOptions_def on_return_def set_url_def set_referrer_def
  set_parseOptions_def set_cookieJar_def new_URL_href_def new_CookieJar_def defaults_def

lemmas evaluation_defs = node_host_def world0_def no_options_def with_jar_def text_html_def
  application_xml_def text_plain_def contentType_or_default_def isHTML_def isXML_def suffix_def
  essence_def normalizeHTML_def

section \<open>The style cascade\<close>

lemma getPropertyValue_Nil: "getPropertyValue [] q = []"
  by (simp add: getPropertyValue_def)

lemma properties_Nil: "properties [] = []"
  by (simp add: properties_def)

lemma getPropertyValue_setProperty:
  "getPropertyValue (setProperty d n v pr) q = (if q = n then v else getPropertyValue d q)"
  by (induction d) (auto simp: getPropertyValue_def)

lemma properties_setProperty:
  "set (properties (setProperty d n v pr)) = insert n (set (properties d))"
  by (induction d) (auto simp: properties_def)

lemma getPropertyValue_foldl_setProperty:
  "getPropertyValue (foldl (\<lambda>decl p. setProperty decl p (f p) (g p)) d ns) q =
     (if q \<in> set ns then f q else getPropertyValue d q)"
  by (induction ns arbitrary: d) (auto simp: getPropertyValue_setProperty)

lemma properties_foldl_setProperty:
  "set (properties (foldl (\<lambda>decl p. setProperty decl p (f p) (g p)) d ns)) =
     set ns \<union> set (properties d)"
  by (induction ns arbitrary: d) (auto simp: properties_setProperty)

lemma getPropertyValue_copy_properties:
  "getPropertyValue (copy_properties d from) q =
     (if q \<in> set (properties from) then getPropertyValue from q else getPropertyValue d q)"
  unfolding copy_properties_def by (rule getPropertyValue_foldl_setProperty)

lemma properties_copy_properties:
  "set (properties (copy_properties d from)) = set (properties from) \<union> set (properties d)"
  unfolding copy_properties_def by (rule properties_foldl_setProperty)

lemma last_declared_Cons:
  "last_declared (r # rules) p =
     (case last_declared rules p of
        Some v \<Rightarrow> Some v
      | None \<Rightarrow> if p \<in> set (properties r) then Some (getPropertyValue r p) else None)"
  by (auto simp: last_declared_def split: list.splits)

lemma getPropertyValue_foldl_copy_properties:
  "getPropertyValue (foldl copy_properties d rules) q =
     (case last_declared rules q of None \<Rightarrow> getPropertyValue d q | Some v \<Rightarrow> v)"
proof (induction rules arbitrary: d)
  case Nil
  show ?case by (simp add: last_declared_def)
next
  case (Cons r rules)
  show ?case
    by (simp add: Cons.IH last_declared_Cons getPropertyValue_copy_properties
        split: option.splits)
qed

lemma properties_foldl_copy_properties:
  "set (properties (foldl copy_properties d rules)) =
     (\<Union>r\<in>set rules. set (properties r)) \<union> set (properties d)"
  by (induction rules arbitrary: d) (auto simp: properties_copy_properties)

text \<open>
  C1. The computed style merges three sources, each overwriting the last: the matching
  style-sheet rules in encounter order, the resolved-value-implemented properties, and the
  inline style. The value of a property is the inline value when the inline style declares
  it; otherwise the resolved value when the property is in the fixed set; otherwise the
  value of the last matching rule that declares it, or empty. The properties present are
  those of the three sources. In particular, when a rule and the inline style both declare
  a property, the result holds the inline value.
\<close>

theorem getComputedStyle_precedence:
  "getPropertyValue (getComputedStyle h elt) p =
     (if p \<in> set (properties (style elt)) then getPropertyValue (style elt) p
      else if p \<in> set (propertiesWithResolvedValueImplemented h) then getResolvedValue h elt p
      else case last_declared (sheet_rules elt) p of None \<Rightarrow> [] | Some v \<Rightarrow> v)
   \<and> set (properties (getComputedStyle h elt)) =
       (\<Union>r\<in>set (sheet_rules elt). set (properties r))
         \<union> set (propertiesWithResolvedValueImplemented h)
         \<union> set (properties (style elt))
   \<and> ((\<exists>r\<in>set (sheet_rules elt). p \<in> set (properties r)) \<and> p \<in> set (properties (style elt))
        \<longrightarrow> getPropertyValue (getComputedStyle h elt) p = getPropertyValue (style elt) p)"
proof -
  have v: "getPropertyValue (getComputedStyle h elt) p =
     (if p \<in> set (properties (style elt)) then getPropertyValue (style elt) p
      else if p \<in> set (propertiesWithResolvedValueImplemented h) then getResolvedValue h elt p
      else case last_declared (sheet_rules elt) p of None \<Rightarrow> [] | Some v \<Rightarrow> v)"
    by (simp add: getComputedStyle_def Let_def getPropertyValue_copy_properties
        getPropertyValue_foldl_setProperty getPropertyValue_foldl_copy_properties
        getPropertyValue_Nil split: option.splits)
  have s: "set (properties (getComputedStyle h elt)) =
       (\<Union>r\<in>set (sheet_rules elt). set (properties r))
         \<union> set (propertiesWithResolvedValueImplemented h)
         \<union> set (properties (style elt))"
    by (auto simp: getComputedStyle_def Let_def properties_copy_properties
        properties_foldl_setProperty properties_foldl_copy_properties properties_Nil)
  from v s show ?thesis by simp
qed

theorem getComputedStyle_precedence_witness:
  "(\<exists>r\<in>set (sheet_rules red_blue). ''color'' \<in> set (properties r))
   \<and> ''color'' \<in> set (properties (style red_blue))
   \<and> getPropertyValue (getComputedStyle node_host red_blue) ''color'' = ''blue''
   \<and> getPropertyValue (getComputedStyle node_host red_blue) ''visibility'' = ''visible''"
  using getComputedStyle_precedence [of node_host red_blue "''color''"]
    getComputedStyle_precedence [of node_host red_blue "''visibility''"]
  by (simp add: red_blue_def properties_def getPropertyValue_def node_host_def)

section \<open>Input normalization and option validation\<close>

lemma isXML_not_isHTML: "isXML m \<Longrightarrow> \<not> isHTML m"
  by (auto simp: isXML_def isHTML_def suffix_def)

lemma andThen_lift_Inl: "andThen (lift (Inl e)) f w = (Inl e, w)"
  by (simp add: andThen_def lift_def)

lemma andThen_lift_Inr: "andThen (lift (Inr x)) f w = f x w"
  by (simp add: andThen_def lift_def)

lemma new_MIMEType_Some: "MIMEType_new h s = Some m \<Longrightarrow> new_MIMEType h s = Inr m"
  by (simp add: new_MIMEType_def)

lemma JSDOM_new_transformOptions_Inl:
  assumes "MIMEType_new h (contentType_or_default opts) = Some m"
    and "transformOptions h opts (snd (normalizeHTML h inp m)) m = Inl e"
  shows "JSDOM_new h inp opts w = (Inl e, w)"
  using assms
  by (auto simp: JSDOM_new_def contentType_or_default_def new_MIMEType_Some andThen_lift_Inr
      andThen_lift_Inl split: prod.splits)

text \<open>
  C4. When the content type parses to a MIME type that is neither HTML nor XML, the
  constructor throws the \<open>RangeError\<close> of \<open>transformOptions\<close>; the world is as
  before, so no window was built and none is returned.
\<close>

theorem content_type_rejected:
  assumes "MIMEType_new h (contentType_or_default opts) = Some m"
    and "\<not> isHTML m" and "\<not> isXML m"
  shows "JSDOM_new h inp opts w = (Inl (RangeError (contentTypeMessage opts)), w)"
  using assms(2,3)
  by (intro JSDOM_new_transformOptions_Inl [OF assms(1)]) (simp add: transformOptions_def)

theorem content_type_rejected_witness:
  "JSDOM_new node_host (StringIn ''<p>hi</p>'') plain_options world0 =
     (Inl (RangeError (''The given content type of '' @ [CHR 0x22] @ ''text/plain'' @ [CHR 0x22]
                        @ '' was not a HTML or XML content type'')), world0)"
  using content_type_rejected [of node_host plain_options text_plain "StringIn ''<p>hi</p>''" world0]
  by (simp add: node_host_def plain_options_def no_options_def text_plain_def
      contentType_or_default_def isHTML_def isXML_def suffix_def contentTypeMessage_def)

text \<open>
  C5. A string is used verbatim with the label \<open>UTF-8\<close>, whatever the host's
  sniffing functions and the MIME type are. For bytes (an \<open>ArrayBuffer\<close> or a typed
  view) with no byte-order mark, no \<open>charset\<close> parameter and no in-document hint, the
  label is \<open>UTF-8\<close> for an XML type and \<open>windows-1252\<close> otherwise, in particular
  for an HTML type.
\<close>

theorem normalizeHTML_encoding:
  "normalizeHTML h (StringIn s) m = (s, ''UTF-8'')
   \<and> (toBuffer inp = Some b \<and> getBOMEncoding b = None
        \<and> map_of (parameters m) ''charset'' = None \<and> prescanMetaCharset h b = None
      \<longrightarrow> normalizeHTML h inp m =
            (decode h b (if isXML m then ''UTF-8'' else ''windows-1252''),
             if isXML m then ''UTF-8'' else ''windows-1252'')
          \<and> (isHTML m \<longrightarrow> snd (normalizeHTML h inp m) = ''windows-1252''))"
proof -
  have str: "normalizeHTML h (StringIn s) m = (s, ''UTF-8'')"
    by (simp add: normalizeHTML_def)
  have bytes: "normalizeHTML h inp m =
            (decode h b (if isXML m then ''UTF-8'' else ''windows-1252''),
             if isXML m then ''UTF-8'' else ''windows-1252'')"
    if "toBuffer inp = Some b" "getBOMEncoding b = None"
      "map_of (parameters m) ''charset'' = None" "prescanMetaCharset h b = None"
    using that by (cases inp) (simp_all add: normalizeHTML_def sniffHTMLEncoding_def Let_def)
  show ?thesis
    using str bytes isXML_not_isHTML [of m] by auto
qed

theorem normalizeHTML_encoding_witness:
  "normalizeHTML node_host (StringIn ''<p>hi</p>'') text_html = (''<p>hi</p>'', ''UTF-8'')
   \<and> toBuffer (ViewIn [0, 0x3C, 0x70, 0x3E, 7] 1 3) = Some [0x3C, 0x70, 0x3E]
   \<and> getBOMEncoding [0x3C, 0x70, 0x3E] = None
   \<and> snd (normalizeHTML node_host (ViewIn [0, 0x3C, 0x70, 0x3E, 7] 1 3) text_html) = ''windows-1252''
   \<and> snd (normalizeHTML node_host (ViewIn [0, 0x3C, 0x70, 0x3E, 7] 1 3) application_xml) = ''UTF-8''"
  using normalizeHTML_encoding [of node_host "''<p>hi</p>''" text_html
      "ViewIn [0, 0x3C, 0x70, 0x3E, 7] 1 3" "[0x3C, 0x70, 0x3E]"]
    normalizeHTML_encoding [of node_host "''<p>hi</p>''" application_xml
      "ViewIn [0, 0x3C, 0x70, 0x3E, 7] 1 3" "[0x3C, 0x70, 0x3E]"]
  by (simp add: node_host_def text_html_def application_xml_def getBOMEncoding_def isXML_def
      isHTML_def suffix_def)

text \<open>
  C10. An omitted input is the empty string; a string is itself; any other value that is
  not made of bytes is converted by \<open>String\<close>. In each of these cases, which are all
  the inputs that are neither an \<open>ArrayBuffer\<close> nor a typed view, the label is
  \<open>UTF-8\<close>.
\<close>

theorem normalizeHTML_non_bytes:
  "normalizeHTML h Undefined m = ([], ''UTF-8'')
   \<and> normalizeHTML h (StringIn s) m = (s, ''UTF-8'')
   \<and> normalizeHTML h (ValueIn v) m = (String_of h v, ''UTF-8'')
   \<and> (toBuffer inp = None \<longrightarrow>
        inp \<in> {Undefined} \<union> range StringIn \<union> range ValueIn
        \<and> snd (normalizeHTML h inp m) = ''UTF-8'')"
  by (cases inp) (simp_all add: normalizeHTML_def)

theorem normalizeHTML_non_bytes_witness:
  "toBuffer (ValueIn (JSNumber 42)) = None
   \<and> normalizeHTML node_host (ValueIn (JSNumber 42)) text_html = (''42'', ''UTF-8'')
   \<and> normalizeHTML node_host Undefined text_html = ([], ''UTF-8'')"
  using normalizeHTML_non_bytes [of node_host text_html "[]" "JSNumber 42" "ValueIn (JSNumber 42)"]
  by (simp add: node_host_def example_String_of_def decimal.simps)

lemma transformOptions_xml_locations:
  assumes "isXML m" and "includeNodeLocations opts"
  shows "transformOptions h opts enc m =
           Inl (TypeError (if parses h (url opts) \<and> parses h (referrer opts)
                           then nodeLocationsMessage else ''Invalid URL''))"
  using assms isXML_not_isHTML [OF assms(1)]
  by (auto simp: transformOptions_def Let_def on_return_def set_url_def set_referrer_def
      set_parseOptions_def new_URL_href_def parses_def split: option.splits)

text \<open>
  C7, with the order of validation made explicit. When \<open>includeNodeLocations\<close>
  is set and the content type parses to an XML type, the constructor throws a
  \<open>TypeError\<close> and leaves the world as it was, so nothing was built. The URL
  options are validated first: the error is the one about \<open>includeNodeLocations\<close>
  when \<open>url\<close> and \<open>referrer\<close> are absent or accepted by the URL parser, and
  the URL parser's error otherwise.
\<close>

theorem node_locations_with_xml_rejected:
  assumes "MIMEType_new h (contentType_or_default opts) = Some m"
    and "isXML m" and "includeNodeLocations opts"
  shows "JSDOM_new h inp opts w =
           (Inl (TypeError (if parses h (url opts) \<and> parses h (referrer opts)
                            then nodeLocationsMessage else ''Invalid URL'')), w)"
  by (intro JSDOM_new_transformOptions_Inl [OF assms(1)] transformOptions_xml_locations assms)

theorem node_locations_with_xml_rejected_witness:
  "JSDOM_new node_host (StringIn ''<a/>'') xml_locations world0 =
     (Inl (TypeError ''Cannot set includeNodeLocations to true with an XML content type''), world0)"
  using node_locations_with_xml_rejected
    [of node_host xml_locations application_xml "StringIn ''<a/>''" world0]
  by (simp add: node_host_def xml_locations_def no_options_def application_xml_def
      contentType_or_default_def isXML_def parses_def nodeLocationsMessage_def)

text \<open>
  C7 without that qualification, with the error about \<open>includeNodeLocations\<close> in
  every case, does not hold: for the options \<open>xml_locations_bad_url\<close> the rejected
  \<open>url\<close> is reported instead.
\<close>

theorem node_locations_with_xml_counterexample:
  "\<not> (\<forall>h inp opts w m.
        MIMEType_new h (contentType_or_default opts) = Some m \<and> isXML m
        \<and> includeNodeLocations opts
        \<longrightarrow> JSDOM_new h inp opts w = (Inl (TypeError nodeLocationsMessage), w))"
proof
  assume a: "\<forall>h inp opts w m.
        MIMEType_new h (contentType_or_default opts) = Some m \<and> isXML m
        \<and> includeNodeLocations opts
        \<longrightarrow> JSDOM_new h inp opts w = (Inl (TypeError nodeLocationsMessage), w)"
  have m: "MIMEType_new node_host (contentType_or_default xml_locations_bad_url) = Some application_xml"
    by (simp add: node_host_def xml_locations_bad_url_def xml_locations_def no_options_def
        contentType_or_default_def)
  have x: "isXML application_xml"
    by (simp add: application_xml_def isXML_def)
  have i: "includeNodeLocations xml_locations_bad_url"
    by (simp add: xml_locations_bad_url_def xml_locations_def no_options_def)
  have "JSDOM_new node_host (StringIn ''<a/>'') xml_locations_bad_url world0 =
          (Inl (TypeError ''Invalid URL''), world0)"
    by (simp add: construction_defs action_defs transformOptions_defs evaluation_defs
        xml_locations_bad_url_def xml_locations_def)
  moreover have "JSDOM_new node_host (StringIn ''<a/>'') xml_locations_bad_url world0 =
          (Inl (TypeError nodeLocationsMessage), world0)"
    using a m x i by blast
  ultimately show False
    by (simp add: nodeLocationsMessage_def)
qed

section \<open>The order of a construction\<close>

lemma construction_returns:
  assumes "JSDOM_new h inp opts w = (Inr j, w')"
  shows "trace w' = trace w @ construction_trace (next_ref w) (markup h inp opts)
         \<and> window_sym j = next_ref w
         \<and> (\<exists>win. windows w' (next_ref w) = Some win \<and> priv_globalProxy win = next_ref w
               \<and> d_ref (priv_document win) = next_ref w + 1)
         \<and> (\<forall>x\<in>set (step_outcomes h opts (next_ref w)). x = None)"
  using assms
  by (auto simp: construction_defs action_defs
      construction_trace_def step_outcomes_def markup_def
      transformOptions_def on_return_def
      split: option.splits prod.splits sum.splits if_splits)

lemma construction_throws:
  assumes "JSDOM_new h inp opts w = (Inl e, w')"
  shows "\<exists>evs. trace w' = trace w @ evs
           \<and> prefix evs (construction_trace (next_ref w) (markup h inp opts))"
  using assms
  by (auto simp: construction_defs action_defs construction_trace_def markup_def
      split: option.splits prod.splits sum.splits if_splits)

lemma transformOptions_beforeParse:
  assumes "transformOptions h opts enc m = Inr t"
  shows "t_beforeParse t = (case beforeParse opts of None \<Rightarrow> (\<lambda>r. None) | Some f \<Rightarrow> f)"
  using assms
  by (auto simp: transformOptions_defs Let_def split: option.splits if_splits sum.splits)

lemma construction_throws_after_calls:
  assumes "JSDOM_new h inp opts w = (Inl e, w')"
    and "MIMEType_new h (contentType_or_default opts) = Some m"
    and "transformOptions h opts (snd (normalizeHTML h inp m)) m = Inr t"
  shows "new_events w w' \<noteq> []
         \<and> take (length (new_events w w')) (step_outcomes h opts (next_ref w)) =
             replicate (length (new_events w w') - 1) None @ [Some e]"
  using assms transformOptions_beforeParse [OF assms(3)]
  by (auto simp: construction_defs action_defs step_outcomes_def new_events_def
      eval_nat_numeral
      split: option.splits prod.splits sum.splits if_splits)

lemma construction_throws_before_calls:
  assumes "JSDOM_new h inp opts w = (Inl e, w')"
    and "new_MIMEType h (contentType_or_default opts) = Inl e'
         \<or> (\<exists>m. MIMEType_new h (contentType_or_default opts) = Some m
               \<and> transformOptions h opts (snd (normalizeHTML h inp m)) m = Inl e')"
  shows "e' = e \<and> new_events w w' = []"
  using assms
  by (auto simp: JSDOM_new_def new_MIMEType_def action_defs new_events_def
      split: option.splits prod.splits)

lemma new_events_append: "trace w' = trace w @ evs \<Longrightarrow> new_events w w' = evs"
  by (simp add: new_events_def)

text \<open>
  C2. A construction that returns has added to the trace, in this order, the calls that
  build the window and its document, one call of the hook \<open>beforeParse\<close>, the call
  of the parser and the call of \<open>close\<close>; the argument of the hook is the global
  proxy of the window, the reference that the accessor \<open>window\<close> of the instance
  returns; every call returned. A construction that throws returns no instance and has
  made an initial segment of these calls: none, when the MIME type parser or
  \<open>transformOptions\<close> threw, and the error is theirs; otherwise every call but the
  last returned and the last threw the error. So the hook is called after the window and
  its document are built, the parser after the hook returned, and \<open>close\<close> after the
  parser returned.
\<close>

theorem construction_order:
  assumes "JSDOM_new h inp opts w = (res, w')"
  shows "(\<forall>j. res = Inr j \<longrightarrow>
            new_events w w' = construction_trace (next_ref w) (markup h inp opts)
            \<and> filter is_BeforeParse (new_events w w') = [BeforeParse (next_ref w)]
            \<and> JSDOM_window j w' = (Inr (next_ref w), w')
            \<and> (\<forall>x\<in>set (step_outcomes h opts (next_ref w)). x = None))
         \<and> (\<forall>e. res = Inl e \<longrightarrow>
              prefix (new_events w w') (construction_trace (next_ref w) (markup h inp opts))
              \<and> (if new_events w w' = []
                  then new_MIMEType h (contentType_or_default opts) = Inl e
                       \<or> (\<exists>m. MIMEType_new h (contentType_or_default opts) = Some m
                             \<and> transformOptions h opts (snd (normalizeHTML h inp m)) m = Inl e)
                  else take (length (new_events w w')) (step_outcomes h opts (next_ref w)) =
                         replicate (length (new_events w w') - 1) None @ [Some e]))"
proof (cases res)
  case (Inr j)
  with assms have r: "JSDOM_new h inp opts w = (Inr j, w')" by simp
  note c = construction_returns [OF r]
  from c have ev: "new_events w w' = construction_trace (next_ref w) (markup h inp opts)"
    by (simp add: new_events_append)
  have once: "filter is_BeforeParse (new_events w w') = [BeforeParse (next_ref w)]"
    by (simp add: ev construction_trace_def is_BeforeParse_def)
  from c have win: "JSDOM_window j w' = (Inr (next_ref w), w')"
    by (auto simp: JSDOM_window_def action_defs)
  from c ev once win Inr show ?thesis by simp
next
  case (Inl e)
  with assms have r: "JSDOM_new h inp opts w = (Inl e, w')" by simp
  from construction_throws [OF r] have
    p: "prefix (new_events w w') (construction_trace (next_ref w) (markup h inp opts))"
    by (auto simp: new_events_append)
  have "if new_events w w' = []
        then new_MIMEType h (contentType_or_default opts) = Inl e
             \<or> (\<exists>m. MIMEType_new h (contentType_or_default opts) = Some m
                   \<and> transformOptions h opts (snd (normalizeHTML h inp m)) m = Inl e)
        else take (length (new_events w w')) (step_outcomes h opts (next_ref w)) =
               replicate (length (new_events w w') - 1) None @ [Some e]"
  proof (cases "MIMEType_new h (contentType_or_default opts)")
    case None
    then have m: "new_MIMEType h (contentType_or_default opts) =
                    Inl (Error (mimeMessage (contentType_or_default opts)))"
      by (simp add: new_MIMEType_def)
    with construction_throws_before_calls [OF r] show ?thesis
      by auto
  next
    case (Some m)
    show ?thesis
    proof (cases "transformOptions h opts (snd (normalizeHTML h inp m)) m")
      case (Inl e')
      with Some construction_throws_before_calls [OF r, of e'] show ?thesis
        by auto
    next
      case (Inr t)
      from construction_throws_after_calls [OF r Some Inr] show ?thesis
        by simp
    qed
  qed
  with p Inl show ?thesis by simp
qed

lemma example_construction:
  "fst (JSDOM_new node_host (StringIn ''<p>hi</p>'') with_jar world0) = Inr \<lparr>window_sym = 0\<rparr>"
  by (simp add: construction_defs action_defs transformOptions_defs evaluation_defs)

theorem construction_order_witness:
  "fst (JSDOM_new node_host (StringIn ''<p>hi</p>'') with_jar world0) = Inr \<lparr>window_sym = 0\<rparr>
   \<and> new_events world0 (snd (JSDOM_new node_host (StringIn ''<p>hi</p>'') with_jar world0)) =
       [InstallInterfaces 0, CreateWrapper 0 1, CreateSelection 0 2, CreateRegistry 0 3,
        InitializeWindow 0 0, BeforeParse 0, ParseIntoDocument ''<p>hi</p>'' 1, Close 1]"
  using construction_order [of node_host "StringIn ''<p>hi</p>''" with_jar world0
      "Inr \<lparr>window_sym = 0\<rparr>" "snd (JSDOM_new node_host (StringIn ''<p>hi</p>'') with_jar world0)"]
    example_construction
  by (simp add: prod_eq_iff construction_trace_def markup_def evaluation_defs)

section \<open>The topology of a fresh window\<close>

text \<open>
  C3. In the window that \<open>createWindow\<close> returns, the accessors \<open>self\<close>,
  \<open>top\<close>, \<open>parent\<close>, \<open>frames\<close> and \<open>window\<close> all give the global proxy
  of the window, which is the reference of the window itself, and \<open>length\<close> gives 0.
\<close>

theorem fresh_window_topology:
  assumes "createWindow h opts w = (Inr r, w')"
  shows "\<exists>win. windows w' r = Some win \<and> priv_globalProxy win = r
           \<and> get_self win = r \<and> get_top win = r \<and> get_parent win = r \<and> get_frames win = r
           \<and> get_window win = r \<and> get_length win = 0"
  using assms
  by (auto simp: createWindow_def Window_def action_defs Let_def get_self_def get_top_def
      get_parent_def get_frames_def get_window_def get_length_def
      split: option.splits prod.splits sum.splits)

lemma example_createWindow:
  "fst (createWindow node_host (windowOptions (defaults ''UTF-8'')) world0) = Inr 0"
  by (simp add: createWindow_def Window_def action_defs Let_def evaluation_defs)

theorem fresh_window_topology_witness:
  "fst (createWindow node_host (windowOptions (defaults ''UTF-8'')) world0) = Inr 0
   \<and> (\<exists>win. windows (snd (createWindow node_host (windowOptions (defaults ''UTF-8'')) world0)) 0
               = Some win
          \<and> get_self win = 0 \<and> get_top win = 0 \<and> get_parent win = 0 \<and> get_frames win = 0
          \<and> get_length win = 0)"
  using fresh_window_topology [of node_host "windowOptions (defaults ''UTF-8'')" world0 0
      "snd (createWindow node_host (windowOptions (defaults ''UTF-8'')) world0)"]
    example_createWindow
  by (auto simp: prod_eq_iff)

section \<open>Node locations\<close>

lemma transformOptions_sourceCodeLocationInfo:
  assumes "transformOptions h opts enc m = Inr t"
  shows "sourceCodeLocationInfo (w_parseOptions (windowOptions t)) = includeNodeLocations opts"
  using assms
  by (auto simp: transformOptions_defs Let_def split: option.splits if_splits sum.splits)

lemma construction_parseOptions:
  assumes "JSDOM_new h inp opts w = (Inr j, w')"
  shows "\<exists>win. windows w' (window_sym j) = Some win
           \<and> sourceCodeLocationInfo (d_parseOptions (priv_document win)) = includeNodeLocations opts"
  using assms
  by (auto simp: construction_defs action_defs transformOptions_sourceCodeLocationInfo
      split: option.splits prod.splits sum.splits if_splits)

text \<open>
  C8. For an instance that a construction returned and a world in which its window is as
  constructed, \<open>nodeLocation\<close> throws the usage error exactly when
  \<open>includeNodeLocations\<close> was not set at construction, and returns the
  \<open>sourceCodeLocation\<close> of the node when it was set; the world is returned unchanged
  in both cases.
\<close>

theorem nodeLocation_usage:
  assumes "JSDOM_new h inp opts w = (Inr j, w')"
    and "windows w'' (window_sym j) = windows w' (window_sym j)"
  shows "nodeLocation j n w'' =
           ((if includeNodeLocations opts then Inr (sourceCodeLocation n)
             else Inl (Error locationMessage)), w'')"
  using construction_parseOptions [OF assms(1)] assms(2)
  by (auto simp: nodeLocation_def action_defs)

lemma example_construction_locations:
  "fst (JSDOM_new node_host (StringIn ''<p>hi</p>'') with_locations world0) = Inr \<lparr>window_sym = 0\<rparr>"
  by (simp add: construction_defs action_defs transformOptions_defs evaluation_defs with_locations_def)

theorem nodeLocation_usage_witness:
  "fst (JSDOM_new node_host (StringIn ''<p>hi</p>'') with_locations world0) = Inr \<lparr>window_sym = 0\<rparr>
   \<and> fst (nodeLocation \<lparr>window_sym = 0\<rparr> example_node
            (snd (JSDOM_new node_host (StringIn ''<p>hi</p>'') with_locations world0))) =
       Inr (Some (0, 9))
   \<and> fst (JSDOM_new node_host (StringIn ''<p>hi</p>'') with_jar world0) = Inr \<lparr>window_sym = 0\<rparr>
   \<and> nodeLocation \<lparr>window_sym = 0\<rparr> example_node
            (snd (JSDOM_new node_host (StringIn ''<p>hi</p>'') with_jar world0)) =
       (Inl (Error locationMessage),
        snd (JSDOM_new node_host (StringIn ''<p>hi</p>'') with_jar world0))"
  using nodeLocation_usage [of node_host "StringIn ''<p>hi</p>''" with_locations world0
      "\<lparr>window_sym = 0\<rparr>"
      "snd (JSDOM_new node_host (StringIn ''<p>hi</p>'') with_locations world0)"
      "snd (JSDOM_new node_host (StringIn ''<p>hi</p>'') with_locations world0)" example_node]
    nodeLocation_usage [of node_host "StringIn ''<p>hi</p>''" with_jar world0
      "\<lparr>window_sym = 0\<rparr>"
      "snd (JSDOM_new node_host (StringIn ''<p>hi</p>'') with_jar world0)"
      "snd (JSDOM_new node_host (StringIn ''<p>hi</p>'') with_jar world0)" example_node]
    example_construction_locations example_construction
  by (simp add: prod_eq_iff with_locations_def with_jar_def no_options_def example_node_def)

section \<open>The default cookie jar\<close>

lemma transformOptions_cookieJar:
  assumes "transformOptions h opts enc m = Inr t"
  shows "w_cookieJar (windowOptions t) =
           Some (case cookieJar opts of None \<Rightarrow> NewCookieJar | Some jar \<Rightarrow> jar)
         \<and> (cookieJar opts = None \<longrightarrow> CookieJar_bound h)"
  using assms
  by (auto simp: transformOptions_defs Let_def split: option.splits if_splits sum.splits)

lemma transformOptions_unbound:
  assumes "\<not> CookieJar_bound h" and "cookieJar opts = None"
  shows "\<exists>e. transformOptions h opts enc m = Inl e"
  using assms transformOptions_cookieJar [of h opts enc m]
  by (cases "transformOptions h opts enc m") auto

lemma construction_unbound:
  assumes "\<not> CookieJar_bound h" and "cookieJar opts = None"
  shows "\<exists>e. JSDOM_new h inp opts w = (Inl e, w)"
proof (cases "MIMEType_new h (contentType_or_default opts)")
  case None
  then show ?thesis
    by (simp add: JSDOM_new_def new_MIMEType_def action_defs)
next
  case (Some m)
  from transformOptions_unbound [OF assms] obtain e where
    "transformOptions h opts (snd (normalizeHTML h inp m)) m = Inl e" by blast
  with Some show ?thesis
    by (auto simp: JSDOM_new_def new_MIMEType_def action_defs split: prod.splits)
qed

text \<open>
  C6. With no \<open>cookieJar\<close> option, \<open>transformOptions\<close> evaluates
  \<open>new CookieJar()\<close>, and the module binds no such identifier. In the example host,
  which has no global of that name, the construction with default options throws a
  \<open>ReferenceError\<close> and builds nothing, where a new empty cookie jar was meant.
\<close>

theorem default_cookieJar_unbound:
  "JSDOM_new node_host (StringIn ''<p>hi</p>'') no_options world0 =
     (Inl (ReferenceError ''CookieJar is not defined''), world0)"
  by (simp add: construction_defs action_defs transformOptions_defs evaluation_defs)

section \<open>The shared fragment document\<close>

lemma fragment_construction_throws:
  assumes "sharedFragmentDocument w = None"
    and "JSDOM_new h Undefined no_options w = (Inl e, w')"
  shows "fragment h s w = (Inl e, w')"
  using assms
  by (simp add: fragment_def Let_def get_sharedFragmentDocument_def andThen_def)

lemma fragment_unbound:
  assumes "\<not> CookieJar_bound h" and "sharedFragmentDocument w = None"
  shows "\<exists>e. fragment h s w = (Inl e, w)"
proof -
  from construction_unbound [OF assms(1), of no_options Undefined w]
  obtain e where "JSDOM_new h Undefined no_options w = (Inl e, w)"
    by (auto simp: no_options_def)
  with assms(2) show ?thesis
    by (auto dest: fragment_construction_throws)
qed

lemma fragment_reuses:
  assumes "sharedFragmentDocument w = Some d" and "fragment h s w = (res, w')"
  shows "sharedFragmentDocument w' = Some d \<and> windows w' = windows w
         \<and> prefix (new_events w w')
              [CreateElement (d_ref d) ''template'' (next_ref w),
               SetInnerHTML (next_ref w) (case s of None \<Rightarrow> [] | Some x \<Rightarrow> x)]
         \<and> (\<forall>f. res = Inr f \<longrightarrow>
               f = \<lparr>f_template = next_ref w, f_document = d_ref d,
                    f_markup = (case s of None \<Rightarrow> [] | Some x \<Rightarrow> x)\<rparr>
               \<and> next_ref w < next_ref w')"
  using assms
  by (auto simp: fragment_def get_sharedFragmentDocument_def action_defs new_events_def
      split: option.splits prod.splits sum.splits if_splits)

lemma fragment_first:
  assumes "sharedFragmentDocument w = None" and "fragment h s w = (Inr f, w')"
  shows "\<exists>d. sharedFragmentDocument w' = Some d \<and> f_document f = d_ref d
           \<and> d_ref d = next_ref w + 1 \<and> f_template f = next_ref w + 4"
  using assms
  by (auto simp: fragment_def get_sharedFragmentDocument_def construction_defs action_defs
      JSDOM_window_def get_document_def
      split: option.splits prod.splits sum.splits if_splits)

text \<open>
  In a host that binds \<open>CookieJar\<close>, two calls share the document of the first: the
  second call creates a template only.
\<close>

lemma fragment_bound_example:
  "fst (fragment bound_host (Some ''<p>hi</p>'') world0) =
     Inr \<lparr>f_template = 4, f_document = 1, f_markup = ''<p>hi</p>''\<rparr>
   \<and> fst (fragment bound_host (Some ''<b>again</b>'')
            (snd (fragment bound_host (Some ''<p>hi</p>'') world0))) =
     Inr \<lparr>f_template = 5, f_document = 1, f_markup = ''<b>again</b>''\<rparr>
   \<and> new_events (snd (fragment bound_host (Some ''<p>hi</p>'') world0))
         (snd (fragment bound_host (Some ''<b>again</b>'')
            (snd (fragment bound_host (Some ''<p>hi</p>'') world0)))) =
     [CreateElement 1 ''template'' 5, SetInnerHTML 5 ''<b>again</b>'']"
  by (simp add: fragment_def get_sharedFragmentDocument_def JSDOM_window_def get_document_def
      construction_defs action_defs transformOptions_defs evaluation_defs bound_host_def
      new_events_def)

text \<open>
  C9. In the example host the first call of \<open>fragment\<close> throws the
  \<open>ReferenceError\<close> of the construction of the shared document, which stays unset, and
  so does the next call: no shared document is ever created, and no fragment returned.
  Where a construction returns, the lemmas \<open>fragment_first\<close> and
  \<open>fragment_reuses\<close> above show the shared document set once and then reused.
\<close>

theorem fragment_unbound_CookieJar:
  "fragment node_host (Some ''<p>hi</p>'') world0 =
     (Inl (ReferenceError ''CookieJar is not defined''), world0)
   \<and> fragment node_host (Some ''<b>again</b>'')
       (snd (fragment node_host (Some ''<p>hi</p>'') world0)) =
     (Inl (ReferenceError ''CookieJar is not defined''), world0)
   \<and> sharedFragmentDocument world0 = None"
proof -
  have c: "JSDOM_new node_host Undefined no_options world0 =
             (Inl (ReferenceError ''CookieJar is not defined''), world0)"
    by (simp add: construction_defs action_defs transformOptions_defs evaluation_defs)
  have f: "fragment node_host s world0 =
             (Inl (ReferenceError ''CookieJar is not defined''), world0)" for s
    by (rule fragment_construction_throws [OF _ c]) (simp add: world0_def)
  show ?thesis
    by (simp add: f) (simp add: world0_def)
qed

end
